theory Spec2Isabelle
  imports Main "HOL-Library.Sublist"
begin

section \<open>Python values used by both services\<close>

text \<open>
  A Python \<open>str\<close> is a sequence of code points. The model uses \<open>string\<close> with one
  \<open>char\<close> per code point, which covers the code points U+0000 to U+00FF (ASCII and
  Latin-1, enough for every literal of the two services); \<open>length\<close> is Python's
  \<open>len\<close>, \<open>take n\<close> is the slice \<open>[:n]\<close>. Python floats (elapsed times, JSON
  numbers with a fraction) are carried as values of a type variable \<open>'f\<close> and never
  computed with.
\<close>

definition lower_char :: "char \<Rightarrow> char" where
  \<comment> \<open>\<open>str.lower\<close> on one code point below U+0100: A-Z and the Latin-1 capitals
      U+00C0..U+00DE (without the multiplication sign U+00D7) move up by 32.\<close>
  "lower_char c =
     (let n = (of_char c :: nat)
      in if (65 \<le> n \<and> n \<le> 90) \<or> (192 \<le> n \<and> n \<le> 222 \<and> n \<noteq> 215)
         then char_of (n + 32) else c)"

definition lower :: "string \<Rightarrow> string" where
  "lower s = map lower_char s"

definition isspace :: "char \<Rightarrow> bool" where
  \<comment> \<open>the code points below U+0100 that \<open>str.strip()\<close> removes\<close>
  "isspace c =
     (let n = (of_char c :: nat)
      in (9 \<le> n \<and> n \<le> 13) \<or> (28 \<le> n \<and> n \<le> 32) \<or> n = 133 \<or> n = 160)"

definition strip :: "string \<Rightarrow> string" where
  "strip s = rev (dropWhile isspace (rev (dropWhile isspace s)))"

fun rstrip_chars :: "char list \<Rightarrow> string \<Rightarrow> string" where
  \<comment> \<open>\<open>s.rstrip(chars)\<close>\<close>
  "rstrip_chars chars s = rev (dropWhile (\<lambda>c. c \<in> set chars) (rev s))"

fun str_in :: "string \<Rightarrow> string \<Rightarrow> bool" where
  \<comment> \<open>\<open>sub in s\<close> on strings: \<open>sub\<close> occurs in \<open>s\<close> as a contiguous piece\<close>
  "str_in sub [] = (sub = [])"
| "str_in sub (c # cs) = (prefix sub (c # cs) \<or> str_in sub cs)"

definition digit_char :: "nat \<Rightarrow> char" where
  "digit_char d = ''0123456789'' ! d"

fun str_nat :: "nat \<Rightarrow> string" where
  "str_nat n =
     (if n < 10 then [digit_char n] else str_nat (n div 10) @ [digit_char (n mod 10)])"

declare str_nat.simps [simp del]

definition str_int :: "int \<Rightarrow> string" where
  \<comment> \<open>\<open>str(i)\<close> of a Python int\<close>
  "str_int i = (if i < 0 then CHR ''-'' # str_nat (nat (- i)) else str_nat (nat i))"

fun join :: "string \<Rightarrow> string list \<Rightarrow> string" where
  \<comment> \<open>\<open>sep.join(xs)\<close>\<close>
  "join sep [] = []"
| "join sep [x] = x"
| "join sep (x # y # ys) = x @ sep @ join sep (y # ys)"

definition repr_str :: "string \<Rightarrow> string" where
  \<comment> \<open>\<open>repr(s)\<close> of a string without quote, backslash or unprintable character
      (the allow-list entries are lower-case ASCII words)\<close>
  "repr_str s = [CHR 0x27] @ s @ [CHR 0x27]"

definition str_list :: "string list \<Rightarrow> string" where
  \<comment> \<open>a list of strings formatted inside an f-string\<close>
  "str_list xs = ''['' @ join '', '' (map repr_str xs) @ '']''"

datatype pyexn =
    HTTPException int string       \<comment> \<open>\<open>fastapi.HTTPException(status_code, detail)\<close>\<close>
  | RequestException string        \<comment> \<open>\<open>requests.exceptions.RequestException\<close> and its subclasses, with \<open>str(e)\<close>\<close>
  | OtherException string          \<comment> \<open>any other subclass of \<open>Exception\<close>, with \<open>str(e)\<close>\<close>

datatype 'f json =
    JNull
  | JBool bool
  | JInt int
  | JFloat 'f
  | JStr string
  | JArr "'f json list"
  | JObj "(string \<times> 'f json) list"   \<comment> \<open>a dict, read with \<open>map_of\<close>\<close>


section \<open>The processing service (llm\_service/main.py)\<close>

record LLMRequest =
  artifacts :: "string list"
  platform :: string
  model :: string
  prompt :: string

record 'f LLMResponse =
  request_id :: string
  status :: string
  response_text :: string
  metadata :: "(string \<times> 'f json) list"
  timestamp :: string
  processing_time_ms :: 'f

record LLMProcessor =
  supported_platforms :: "string list"
  supported_models :: "string list"

definition LLMProcessor_init :: LLMProcessor where
  "LLMProcessor_init =
     \<lparr>supported_platforms = [''huggingface'', ''openai'', ''local'', ''ollama''],
      supported_models = [''llama'', ''deepseek'', ''gpt'', ''mistral'', ''phi'']\<rparr>"

definition validate_request :: "LLMProcessor \<Rightarrow> LLMRequest \<Rightarrow> pyexn + bool" where
  "validate_request self request =
     (if lower (platform request) \<notin> set (supported_platforms self) then
        Inl (HTTPException 400
          (''Plataforma '' @ [CHR 0x27] @ platform request @ [CHR 0x27] @ '' n'' @ [CHR 0xE3]
           @ ''o suportada. Plataformas suportadas: '' @ str_list (supported_platforms self)))
      else if \<not> list_ex (\<lambda>m. str_in m (lower (model request))) (supported_models self) then
        Inl (HTTPException 400
          (''Modelo '' @ [CHR 0x27] @ model request @ [CHR 0x27] @ '' n'' @ [CHR 0xE3]
           @ ''o suportado. Modelos suportados: '' @ str_list (supported_models self)))
      else if strip (prompt request) = [] then
        Inl (HTTPException 400 (''Prompt n'' @ [CHR 0xE3] @ ''o pode estar vazio''))
      else Inr True)"

fun process_artifacts_loop :: "string \<Rightarrow> nat \<Rightarrow> string list \<Rightarrow> string" where
  \<comment> \<open>\<open>for i, artifact in enumerate(...): artifact_summary += ...\<close>, from index \<open>i\<close>\<close>
  "process_artifacts_loop artifact_summary i [] = artifact_summary"
| "process_artifacts_loop artifact_summary i (artifact # rest) =
     process_artifacts_loop
       (artifact_summary @ ''\<newline>- Artefato '' @ str_int (int i + 1) @ '': ''
          @ take 100 artifact @ ''...'')
       (i + 1) rest"

definition process_artifacts :: "LLMProcessor \<Rightarrow> string list \<Rightarrow> string" where
  "process_artifacts self artifacts' =
     (if artifacts' = [] then ''Nenhum artefato fornecido''
      else
        let artifact_summary =
              process_artifacts_loop
                (''Processando '' @ str_int (int (length artifacts')) @ '' artefato(s): '')
                0 (take 3 artifacts')
        in if length artifacts' > 3
           then artifact_summary @ ''\<newline>- ... e mais ''
                  @ str_int (int (length artifacts') - 3) @ '' artefato(s)''
           else artifact_summary)"

definition generate_response :: "LLMProcessor \<Rightarrow> LLMRequest \<Rightarrow> string" where
  "generate_response self request =
     (let artifact_context = process_artifacts self (artifacts request)
      in strip
          (''\<newline>Resposta gerada pela LLM '' @ model request @ '' na plataforma ''
             @ platform request @ '':\<newline>''
           @ ''\<newline>Contexto dos Artefatos:\<newline>''
           @ artifact_context @ ''\<newline>''
           @ ''\<newline>Prompt Original: \"'' @ prompt request @ ''\"\<newline>''
           @ ''\<newline>Resposta Simulada:\<newline>''
           @ ''Com base nos artefatos fornecidos e no prompt \"'' @ prompt request
             @ ''\", \<newline>''
           @ ''a an'' @ [CHR 0xE1]
             @ ''lise indica que o sistema deve considerar os seguintes aspectos:\<newline>''
           @ ''\<newline>1. An'' @ [CHR 0xE1] @ ''lise dos artefatos fornecidos\<newline>''
           @ ''2. Aplica'' @ [CHR 0xE7, CHR 0xE3] @ ''o do modelo '' @ model request
             @ '' para processamento\<newline>''
           @ ''3. Gera'' @ [CHR 0xE7, CHR 0xE3] @ ''o de resposta contextualizada\<newline>''
           @ ''\<newline>Esta '' @ [CHR 0xE9] @ '' uma resposta simulada. Em produ''
             @ [CHR 0xE7, CHR 0xE3] @ ''o, seria gerada pelo modelo real '' @ model request
             @ ''.\<newline>        ''))"

definition llm_processor :: LLMProcessor where
  "llm_processor = LLMProcessor_init"

definition process_llm_request_try ::
  "(LLMRequest \<Rightarrow> pyexn + bool) \<Rightarrow> (LLMRequest \<Rightarrow> pyexn + string)
     \<Rightarrow> int \<Rightarrow> string \<Rightarrow> 'f \<Rightarrow> LLMRequest \<Rightarrow> pyexn + 'f LLMResponse" where
  \<comment> \<open>the \<open>try\<close> block of \<open>process_llm_request\<close>. Its two calls into the processor,
      \<open>llm_processor.validate_request(request)\<close> and
      \<open>llm_processor.generate_response(request)\<close>, are the arguments \<open>validate\<close> and
      \<open>generate\<close>: a call returns a value or raises. The clock readings are inputs:
      \<open>start_ms\<close> is \<open>int(start_time.timestamp() * 1000)\<close>, \<open>end_iso\<close> is
      \<open>end_time.isoformat()\<close>, \<open>processing_time\<close> is the elapsed time in ms.\<close>
  "process_llm_request_try validate generate start_ms end_iso processing_time request =
     (let request_id' = ''req_'' @ str_int start_ms
      in case validate request of
           Inl e \<Rightarrow> Inl e
         | Inr _ \<Rightarrow>
             (case generate request of
                Inl e \<Rightarrow> Inl e
              | Inr response_text' \<Rightarrow>
                  let metadata' =
                        [(''platform_used'', JStr (platform request)),
                         (''model_used'', JStr (model request)),
                         (''artifacts_count'', JInt (int (length (artifacts request)))),
                         (''prompt_length'', JInt (int (length (prompt request)))),
                         (''response_length'', JInt (int (length response_text')))]
                  in Inr \<lparr>request_id = request_id',
                          status = ''success'',
                          response_text = response_text',
                          metadata = metadata',
                          timestamp = end_iso,
                          processing_time_ms = processing_time\<rparr>))"

fun process_llm_request_except :: "pyexn + 'a \<Rightarrow> pyexn + 'a" where
  \<comment> \<open>the two \<open>except\<close> clauses of \<open>process_llm_request\<close>, in the source's order\<close>
  "process_llm_request_except (Inr r) = Inr r"
| "process_llm_request_except (Inl (HTTPException c d)) = Inl (HTTPException c d)"
| "process_llm_request_except (Inl (RequestException msg)) =
     Inl (HTTPException 500 (''Erro interno do servidor: '' @ msg))"
| "process_llm_request_except (Inl (OtherException msg)) =
     Inl (HTTPException 500 (''Erro interno do servidor: '' @ msg))"

definition process_llm_request_with ::
  "(LLMRequest \<Rightarrow> pyexn + bool) \<Rightarrow> (LLMRequest \<Rightarrow> pyexn + string)
     \<Rightarrow> int \<Rightarrow> string \<Rightarrow> 'f \<Rightarrow> LLMRequest \<Rightarrow> pyexn + 'f LLMResponse" where
  \<comment> \<open>the body of \<open>process_llm_request\<close>: the \<open>try\<close> block under its \<open>except\<close>
      clauses\<close>
  "process_llm_request_with validate generate start_ms end_iso processing_time request =
     process_llm_request_except
       (process_llm_request_try validate generate start_ms end_iso processing_time request)"

definition process_llm_request ::
  "int \<Rightarrow> string \<Rightarrow> 'f \<Rightarrow> LLMRequest \<Rightarrow> pyexn + 'f LLMResponse" where
  \<comment> \<open>the endpoint: the body run on the module's \<open>llm_processor\<close>\<close>
  "process_llm_request start_ms end_iso processing_time request =
     process_llm_request_with
       (validate_request llm_processor)
       (\<lambda>r. Inr (generate_response llm_processor r))
       start_ms end_iso processing_time request"


section \<open>The relay service (test\_service/main.py)\<close>

text \<open>
  \<open>TestRequest\<close> declares the same four fields as \<open>LLMRequest\<close>; one record serves
  both. The network is an input: \<open>requests.get(url, timeout=t)\<close> and
  \<open>requests.post(url, json=payload, timeout=t)\<close> either raise or return a response,
  whose \<open>json\<close> field is what calling \<open>response.json()\<close> does (the parsed body, or
  the exception raised for a body that is not JSON). Logging has no effect on any
  returned value and is left out.
\<close>

type_synonym TestRequest = LLMRequest

record 'f response =
  status_code :: int
  body_text :: string              \<comment> \<open>\<open>response.text\<close>\<close>
  json :: "pyexn + 'f json"        \<comment> \<open>\<open>response.json()\<close>\<close>

type_synonym 'f requests_get = "string \<Rightarrow> int \<Rightarrow> pyexn + 'f response"


record 'f TestResponse =
  test_id :: string
  llm_request :: TestRequest
  llm_response :: "'f json"
  status :: string
  timestamp :: string
  test_duration_ms :: 'f

record HealthResponse =
  status :: string
  timestamp :: string
  llm_service_status :: string

record LLMClient =
  base_url :: string

definition LLMClient_init :: "string \<Rightarrow> LLMClient" where
  "LLMClient_init url = \<lparr>base_url = rstrip_chars ''/'' url\<rparr>"

fun py_type_name :: "'f json \<Rightarrow> string" where
  "py_type_name JNull = ''NoneType''"
| "py_type_name (JBool b) = ''bool''"
| "py_type_name (JInt i) = ''int''"
| "py_type_name (JFloat x) = ''float''"
| "py_type_name (JStr s) = ''str''"
| "py_type_name (JArr xs) = ''list''"
| "py_type_name (JObj kvs) = ''dict''"

fun json_get :: "'f json \<Rightarrow> string \<Rightarrow> 'f json \<Rightarrow> pyexn + 'f json" where
  \<comment> \<open>\<open>v.get(key, dflt)\<close>: only a dict has the method; on any other value the
      attribute lookup raises AttributeError\<close>
  "json_get (JObj kvs) key dflt =
     Inr (case map_of kvs key of Some v \<Rightarrow> v | None \<Rightarrow> dflt)"
| "json_get v key dflt =
     Inl (OtherException
       ([CHR 0x27] @ py_type_name v @ [CHR 0x27] @ '' object has no attribute ''
        @ [CHR 0x27] @ ''get'' @ [CHR 0x27]))"

definition check_health :: "LLMClient \<Rightarrow> 'f requests_get \<Rightarrow> pyexn + bool" where
  "check_health self requests_get =
     (case (case requests_get (base_url self @ ''/health'') 5 of
              Inl e \<Rightarrow> Inl e
            | Inr response \<Rightarrow> Inr (status_code response = 200))
      of Inl e \<Rightarrow> Inr False
       | Inr b \<Rightarrow> Inr b)"

definition get_supported_models :: "LLMClient \<Rightarrow> 'f requests_get \<Rightarrow> pyexn + 'f json" where
  "get_supported_models self requests_get =
     (case (case requests_get (base_url self @ ''/models'') 5 of
              Inl e \<Rightarrow> Inl e
            | Inr response \<Rightarrow>
                if status_code response = 200 then
                  (case json response of
                     Inl e \<Rightarrow> Inl e
                   | Inr body \<Rightarrow> json_get body ''supported_models'' (JArr []))
                else Inr (JArr []))
      of Inl e \<Rightarrow> Inr (JArr [])
       | Inr v \<Rightarrow> Inr v)"

definition get_supported_platforms :: "LLMClient \<Rightarrow> 'f requests_get \<Rightarrow> pyexn + 'f json" where
  "get_supported_platforms self requests_get =
     (case (case requests_get (base_url self @ ''/platforms'') 5 of
              Inl e \<Rightarrow> Inl e
            | Inr response \<Rightarrow>
                if status_code response = 200 then
                  (case json response of
                     Inl e \<Rightarrow> Inl e
                   | Inr body \<Rightarrow> json_get body ''supported_platforms'' (JArr []))
                else Inr (JArr []))
      of Inl e \<Rightarrow> Inr (JArr [])
       | Inr v \<Rightarrow> Inr v)"




definition llm_client :: "string \<Rightarrow> LLMClient" where
  \<comment> \<open>the module-level client, built from the environment's \<open>LLM_SERVICE_URL\<close>\<close>
  "llm_client LLM_SERVICE_URL = LLMClient_init LLM_SERVICE_URL"

definition health_check ::
  "string \<Rightarrow> 'f requests_get \<Rightarrow> string \<Rightarrow> pyexn + HealthResponse" where
  \<comment> \<open>\<open>now_iso\<close> is \<open>datetime.now().isoformat()\<close>\<close>
  "health_check LLM_SERVICE_URL requests_get now_iso =
     (case check_health (llm_client LLM_SERVICE_URL) requests_get of
        Inl e \<Rightarrow> Inl e
      | Inr llm_healthy \<Rightarrow>
          Inr \<lparr>status = (if llm_healthy then ''healthy'' else ''degraded''),
               timestamp = now_iso,
               llm_service_status = (if llm_healthy then ''healthy'' else ''unhealthy'')\<rparr>)"





subsection \<open>Fixed environments for the concrete instances\<close>

definition get_answers :: "string \<Rightarrow> pyexn + 'f response \<Rightarrow> 'f requests_get" where
  \<comment> \<open>a network on which a GET of \<open>expected\<close> has the given outcome and no other
      address can be reached\<close>
  "get_answers expected outcome url timeout =
     (if url = expected then outcome else Inl (RequestException ''Connection refused''))"




section \<open>Facts about the string operations\<close>

lemma str_in_sublist: "str_in sub s \<longleftrightarrow> sublist sub s"
  by (induction s) (auto simp: sublist_Cons_right)

lemma dropWhile_all: "(\<forall>x\<in>set (dropWhile P s). P x) \<longleftrightarrow> (\<forall>x\<in>set s. P x)"
  by (induction s) auto

lemma strip_empty_iff: "strip s = [] \<longleftrightarrow> (\<forall>c\<in>set s. isspace c)"
  by (simp add: strip_def dropWhile_eq_Nil_conv dropWhile_all)

lemma sublist_appendR: "sublist x b \<Longrightarrow> sublist x (a @ b)"
  by (metis sublist_append)

lemma sublist_here: "sublist x (x @ b)"
  by (metis append_Nil sublist_appendI)

lemma supported_platforms_llm:
  "supported_platforms llm_processor = [''huggingface'', ''openai'', ''local'', ''ollama'']"
  by (simp add: llm_processor_def LLMProcessor_init_def)

lemma supported_models_llm:
  "supported_models llm_processor = [''llama'', ''deepseek'', ''gpt'', ''mistral'', ''phi'']"
  by (simp add: llm_processor_def LLMProcessor_init_def)

lemma str_list_platforms:
  "str_list [''huggingface'', ''openai'', ''local'', ''ollama'']
     = ''['huggingface', 'openai', 'local', 'ollama']''"
  by (simp add: str_list_def repr_str_def)

lemma str_list_models:
  "str_list [''llama'', ''deepseek'', ''gpt'', ''mistral'', ''phi'']
     = ''['llama', 'deepseek', 'gpt', 'mistral', 'phi']''"
  by (simp add: str_list_def repr_str_def)

lemma lower_openai: "lower ''OpenAI'' = ''openai''"
  by code_simp

lemma lower_my_gpt: "lower ''My-GPT-4'' = ''my-gpt-4''"
  by code_simp

lemma lower_aws: "lower ''aws'' = ''aws''"
  by code_simp

lemma lower_bert: "lower ''BERT-base'' = ''bert-base''"
  by code_simp


lemma lower_openai_plain: "lower ''openai'' = ''openai''"
  by code_simp

lemma lower_gpt: "lower ''gpt'' = ''gpt''"
  by code_simp

lemma lower_hf: "lower ''huggingface'' = ''huggingface''"
  by code_simp

lemma lower_llama7b: "lower ''llama-7b'' = ''llama-7b''"
  by code_simp

lemma str_int_small: "str_int 1 = ''1''" "str_int 2 = ''2''" "str_int 3 = ''3''" "str_int 5 = ''5''"
  by (simp_all add: str_int_def str_nat.simps digit_char_def)

lemma str_int_millis: "str_int 1700000000123 = ''1700000000123''"
  by (simp add: str_int_def str_nat.simps digit_char_def)

lemma digit_char_value: "d < 10 \<Longrightarrow> of_char (digit_char d) = 48 + d"
proof -
  assume "d < 10"
  then have "d \<in> {0, 1, 2, 3, 4, 5, 6, 7, 8, 9}" by auto
  then show ?thesis by (auto simp: digit_char_def)
qed

text \<open>The string that \<open>str_nat\<close> returns, read as a decimal numeral, is the number.\<close>

lemma str_nat_decimal:
  "foldl (\<lambda>a c. 10 * a + (of_char c - 48)) 0 (str_nat n) = n"
proof (induction n rule: str_nat.induct)
  case (1 n)
  show ?case
  proof (cases "n < 10")
    case True
    then show ?thesis by (subst str_nat.simps) (simp add: digit_char_value)
  next
    case False
    then have "foldl (\<lambda>a c. 10 * a + (of_char c - 48)) 0 (str_nat (n div 10)) = n div 10"
      using 1 by simp
    with False show ?thesis
      by (subst str_nat.simps) (simp add: digit_char_value)
  qed
qed

lemma strip_core:
  assumes "\<forall>c\<in>set l. isspace c" "\<forall>c\<in>set r. isspace c" "\<not> isspace a" "\<not> isspace b"
  shows "strip (l @ a # mid @ b # r) = a # mid @ [b]"
proof -
  have 1: "dropWhile isspace (l @ a # mid @ b # r) = a # mid @ b # r"
    using assms by (simp add: dropWhile_append3)
  have 2: "dropWhile isspace (rev r @ b # rev mid @ [a]) = b # rev mid @ [a]"
    using assms by (simp add: dropWhile_append3)
  show ?thesis unfolding strip_def 1 using 2 by simp
qed


section \<open>Validation\<close>

text \<open>
  C1. A request whose platform, lower-cased, is none of huggingface, openai, local,
  ollama is rejected with status 400 whatever its model and prompt are: the platform
  check is the first one. The detail quotes the platform as submitted and ends with the
  list of the four supported platforms.
\<close>

theorem validate_request_rejects_unsupported_platform:
  assumes "lower (platform request) \<notin> {''huggingface'', ''openai'', ''local'', ''ollama''}"
  shows "\<exists>detail.
           validate_request llm_processor request = Inl (HTTPException 400 detail)
         \<and> detail = ''Plataforma '' @ [CHR 0x27] @ platform request @ [CHR 0x27]
              @ '' n'' @ [CHR 0xE3]
              @ ''o suportada. Plataformas suportadas: ['huggingface', 'openai', 'local', 'ollama']''
         \<and> sublist (platform request) detail
         \<and> sublist ''huggingface'' detail \<and> sublist ''openai'' detail
         \<and> sublist ''local'' detail \<and> sublist ''ollama'' detail"
proof -
  let ?d = "''Plataforma '' @ [CHR 0x27] @ platform request @ [CHR 0x27]
              @ '' n'' @ [CHR 0xE3]
              @ ''o suportada. Plataformas suportadas: ['huggingface', 'openai', 'local', 'ollama']''"
  have v: "validate_request llm_processor request = Inl (HTTPException 400 ?d)"
    using assms by (simp add: validate_request_def supported_platforms_llm str_list_platforms)
  have p: "sublist (platform request) ?d"
    by (intro sublist_appendR sublist_here)
  have h: "sublist ''huggingface'' ?d"
    by (intro sublist_appendR) (simp add: str_in_sublist [symmetric])
  have o: "sublist ''openai'' ?d"
    by (intro sublist_appendR) (simp add: str_in_sublist [symmetric])
  have l: "sublist ''local'' ?d"
    by (intro sublist_appendR) (simp add: str_in_sublist [symmetric])
  have m: "sublist ''ollama'' ?d"
    by (intro sublist_appendR) (simp add: str_in_sublist [symmetric])
  from v p h o l m show ?thesis by blast
qed

theorem validate_request_rejects_unsupported_platform_witness:
  "lower (platform \<lparr>artifacts = [], platform = ''aws'', model = ''llama-7b'',
                    prompt = ''Summarize''\<rparr>)
     \<notin> {''huggingface'', ''openai'', ''local'', ''ollama''}
   \<and> validate_request llm_processor
        \<lparr>artifacts = [], platform = ''aws'', model = ''llama-7b'', prompt = ''Summarize''\<rparr>
     = Inl (HTTPException 400 (''Plataforma 'aws' n'' @ [CHR 0xE3]
         @ ''o suportada. Plataformas suportadas: ['huggingface', 'openai', 'local', 'ollama']''))"
proof -
  have h: "lower (platform \<lparr>artifacts = [], platform = ''aws'', model = ''llama-7b'',
                            prompt = ''Summarize''\<rparr>)
             \<notin> {''huggingface'', ''openai'', ''local'', ''ollama''}"
    by (simp add: lower_aws)
  show ?thesis
    using h validate_request_rejects_unsupported_platform [OF h] by simp
qed

text \<open>
  C6, as the code has it. With a supported platform, the request is turned down by the
  model check (status 400, the detail quoting the model and listing the five supported
  models) exactly when the lower-cased model contains none of llama, deepseek, gpt,
  mistral, phi as a contiguous piece. A model that contains one of them passes the
  model check: the verdict is then the prompt check's, which still rejects a blank
  prompt, so for a prompt that is not blank the request is rejected exactly when the
  model contains none of the five.
\<close>

theorem validate_request_model_check:
  assumes "lower (platform request) \<in> {''huggingface'', ''openai'', ''local'', ''ollama''}"
  shows "(validate_request llm_processor request =
            Inl (HTTPException 400
              (''Modelo '' @ [CHR 0x27] @ model request @ [CHR 0x27] @ '' n'' @ [CHR 0xE3]
               @ ''o suportado. Modelos suportados: ['llama', 'deepseek', 'gpt', 'mistral', 'phi']''))
          \<longleftrightarrow> \<not> (\<exists>m\<in>{''llama'', ''deepseek'', ''gpt'', ''mistral'', ''phi''}.
                     sublist m (lower (model request))))
       \<and> ((\<exists>m\<in>{''llama'', ''deepseek'', ''gpt'', ''mistral'', ''phi''}.
               sublist m (lower (model request)))
            \<longrightarrow> validate_request llm_processor request =
                  (if strip (prompt request) = []
                   then Inl (HTTPException 400 (''Prompt n'' @ [CHR 0xE3] @ ''o pode estar vazio''))
                   else Inr True))
       \<and> (strip (prompt request) \<noteq> [] \<longrightarrow>
            ((\<exists>e. validate_request llm_processor request = Inl e)
             \<longleftrightarrow> \<not> (\<exists>m\<in>{''llama'', ''deepseek'', ''gpt'', ''mistral'', ''phi''}.
                        sublist m (lower (model request)))))"
  using assms
  by (simp add: validate_request_def supported_platforms_llm supported_models_llm
        str_list_models str_in_sublist)

theorem validate_request_model_check_witness:
  "lower ''OpenAI'' \<in> {''huggingface'', ''openai'', ''local'', ''ollama''}
   \<and> sublist ''gpt'' (lower ''My-GPT-4'')
   \<and> validate_request llm_processor
        \<lparr>artifacts = [], platform = ''OpenAI'', model = ''My-GPT-4'', prompt = ''hi''\<rparr>
       = Inr True
   \<and> \<not> (\<exists>m\<in>{''llama'', ''deepseek'', ''gpt'', ''mistral'', ''phi''}.
            sublist m (lower ''BERT-base''))
   \<and> validate_request llm_processor
        \<lparr>artifacts = [], platform = ''OpenAI'', model = ''BERT-base'', prompt = ''hi''\<rparr>
       = Inl (HTTPException 400 (''Modelo 'BERT-base' n'' @ [CHR 0xE3]
           @ ''o suportado. Modelos suportados: ['llama', 'deepseek', 'gpt', 'mistral', 'phi']''))"
proof -
  let ?ok = "\<lparr>artifacts = [], platform = ''OpenAI'', model = ''My-GPT-4'', prompt = ''hi''\<rparr>"
  let ?bad = "\<lparr>artifacts = [], platform = ''OpenAI'', model = ''BERT-base'', prompt = ''hi''\<rparr>"
  have p: "lower ''OpenAI'' \<in> {''huggingface'', ''openai'', ''local'', ''ollama''}"
    by (simp add: lower_openai)
  have g: "sublist ''gpt'' (lower ''My-GPT-4'')"
    by (simp add: lower_my_gpt str_in_sublist [symmetric])
  have b: "\<not> (\<exists>m\<in>{''llama'', ''deepseek'', ''gpt'', ''mistral'', ''phi''}.
               sublist m (lower ''BERT-base''))"
    by (simp add: lower_bert str_in_sublist [symmetric])
  have s: "strip ''hi'' \<noteq> []"
    by (simp add: strip_def isspace_def)
  have 1: "validate_request llm_processor ?ok = Inr True"
    using validate_request_model_check [of ?ok] p g s by auto
  have 2: "validate_request llm_processor ?bad
             = Inl (HTTPException 400 (''Modelo 'BERT-base' n'' @ [CHR 0xE3]
                 @ ''o suportado. Modelos suportados: ['llama', 'deepseek', 'gpt', 'mistral', 'phi']''))"
    using validate_request_model_check [of ?bad] p b by simp
  from p g b 1 2 show ?thesis by blast
qed

theorem validate_request_blank_prompt_counterexample:
  "lower ''openai'' \<in> {''huggingface'', ''openai'', ''local'', ''ollama''}
   \<and> sublist ''gpt'' (lower ''gpt'')
   \<and> validate_request llm_processor
        \<lparr>artifacts = [], platform = ''openai'', model = ''gpt'', prompt = []\<rparr>
     = Inl (HTTPException 400 (''Prompt n'' @ [CHR 0xE3] @ ''o pode estar vazio''))"
  by (simp add: validate_request_def supported_platforms_llm supported_models_llm
        lower_openai_plain lower_gpt strip_def str_in_sublist [symmetric])

text \<open>
  C5, as the code has it. With a supported platform and model, a prompt made of
  white space only (the empty prompt included) is rejected with status 400 and one
  fixed detail, the same for every such prompt (in Portuguese: the prompt cannot be
  empty); a prompt holding any other character passes, and the request is valid.
\<close>

theorem validate_request_prompt_check:
  assumes "lower (platform request) \<in> {''huggingface'', ''openai'', ''local'', ''ollama''}"
      and "\<exists>m\<in>{''llama'', ''deepseek'', ''gpt'', ''mistral'', ''phi''}.
             sublist m (lower (model request))"
  shows "((\<forall>c\<in>set (prompt request). isspace c) \<longrightarrow>
            validate_request llm_processor request =
              Inl (HTTPException 400 (''Prompt n'' @ [CHR 0xE3] @ ''o pode estar vazio'')))
       \<and> (\<not> (\<forall>c\<in>set (prompt request). isspace c) \<longrightarrow>
            validate_request llm_processor request = Inr True)"
  using assms
  by (simp add: validate_request_def supported_platforms_llm supported_models_llm
        str_in_sublist strip_empty_iff)

theorem validate_request_prompt_check_witness:
  "lower ''OpenAI'' \<in> {''huggingface'', ''openai'', ''local'', ''ollama''}
   \<and> sublist ''gpt'' (lower ''My-GPT-4'')
   \<and> isspace (CHR '' '') \<and> isspace (CHR 0x09) \<and> \<not> isspace (CHR ''h'')
   \<and> validate_request llm_processor
        \<lparr>artifacts = [], platform = ''OpenAI'', model = ''My-GPT-4'',
         prompt = [CHR '' '', CHR 0x09]\<rparr>
       = Inl (HTTPException 400 (''Prompt n'' @ [CHR 0xE3] @ ''o pode estar vazio''))
   \<and> validate_request llm_processor
        \<lparr>artifacts = [], platform = ''OpenAI'', model = ''My-GPT-4'', prompt = '' hi ''\<rparr>
       = Inr True"
proof -
  let ?blank = "\<lparr>artifacts = [], platform = ''OpenAI'', model = ''My-GPT-4'',
                 prompt = [CHR '' '', CHR 0x09]\<rparr>"
  let ?ok = "\<lparr>artifacts = [], platform = ''OpenAI'', model = ''My-GPT-4'', prompt = '' hi ''\<rparr>"
  have p: "lower ''OpenAI'' \<in> {''huggingface'', ''openai'', ''local'', ''ollama''}"
    by (simp add: lower_openai)
  have g: "sublist ''gpt'' (lower ''My-GPT-4'')"
    by (simp add: lower_my_gpt str_in_sublist [symmetric])
  have c: "isspace (CHR '' '') \<and> isspace (CHR 0x09) \<and> \<not> isspace (CHR ''h'')"
    by (simp add: isspace_def)
  have 1: "validate_request llm_processor ?blank
             = Inl (HTTPException 400 (''Prompt n'' @ [CHR 0xE3] @ ''o pode estar vazio''))"
    using validate_request_prompt_check [of ?blank] p g c by simp
  have 2: "validate_request llm_processor ?ok = Inr True"
    using validate_request_prompt_check [of ?ok] p g c by simp
  from p g c 1 2 show ?thesis by blast
qed

theorem validate_request_prompt_detail_counterexample:
  "validate_request llm_processor
     \<lparr>artifacts = [], platform = ''OpenAI'', model = ''My-GPT-4'', prompt = [CHR 0x09]\<rparr>
     = Inl (HTTPException 400 (''Prompt n'' @ [CHR 0xE3] @ ''o pode estar vazio''))
   \<and> \<not> sublist [CHR 0x09] (''Prompt n'' @ [CHR 0xE3] @ ''o pode estar vazio'')"
  by (simp add: validate_request_def supported_platforms_llm supported_models_llm
        lower_openai lower_my_gpt strip_def isspace_def str_in_sublist [symmetric])


section \<open>The composed response\<close>

lemma process_artifacts_loop_closed:
  "process_artifacts_loop acc i xs =
     acc @ concat (map (\<lambda>(k, a). ''\<newline>- Artefato '' @ str_int (int k + 1) @ '': ''
                                 @ take 100 a @ ''...'') (enumerate i xs))"
  by (induction xs arbitrary: acc i) simp_all

lemma generate_response_closed:
  "generate_response self request =
     ''Resposta gerada pela LLM '' @ model request @ '' na plataforma ''
       @ platform request @ '':\<newline>\<newline>Contexto dos Artefatos:\<newline>''
       @ process_artifacts self (artifacts request)
       @ ''\<newline>\<newline>Prompt Original: \"'' @ prompt request
       @ ''\"\<newline>\<newline>Resposta Simulada:\<newline>Com base nos artefatos fornecidos e no prompt \"''
       @ prompt request @ ''\", \<newline>a an'' @ [CHR 0xE1]
       @ ''lise indica que o sistema deve considerar os seguintes aspectos:\<newline>\<newline>1. An''
       @ [CHR 0xE1] @ ''lise dos artefatos fornecidos\<newline>2. Aplica'' @ [CHR 0xE7, CHR 0xE3]
       @ ''o do modelo '' @ model request @ '' para processamento\<newline>3. Gera''
       @ [CHR 0xE7, CHR 0xE3] @ ''o de resposta contextualizada\<newline>\<newline>Esta '' @ [CHR 0xE9]
       @ '' uma resposta simulada. Em produ'' @ [CHR 0xE7, CHR 0xE3]
       @ ''o, seria gerada pelo modelo real '' @ model request @ ''.''"
proof -
  define mid where "mid =
     ''esposta gerada pela LLM '' @ model request @ '' na plataforma ''
       @ platform request @ '':\<newline>\<newline>Contexto dos Artefatos:\<newline>''
       @ process_artifacts self (artifacts request)
       @ ''\<newline>\<newline>Prompt Original: \"'' @ prompt request
       @ ''\"\<newline>\<newline>Resposta Simulada:\<newline>Com base nos artefatos fornecidos e no prompt \"''
       @ prompt request @ ''\", \<newline>a an'' @ [CHR 0xE1]
       @ ''lise indica que o sistema deve considerar os seguintes aspectos:\<newline>\<newline>1. An''
       @ [CHR 0xE1] @ ''lise dos artefatos fornecidos\<newline>2. Aplica'' @ [CHR 0xE7, CHR 0xE3]
       @ ''o do modelo '' @ model request @ '' para processamento\<newline>3. Gera''
       @ [CHR 0xE7, CHR 0xE3] @ ''o de resposta contextualizada\<newline>\<newline>Esta '' @ [CHR 0xE9]
       @ '' uma resposta simulada. Em produ'' @ [CHR 0xE7, CHR 0xE3]
       @ ''o, seria gerada pelo modelo real '' @ model request"
  have g: "generate_response self request
             = strip (''\<newline>'' @ CHR ''R'' # mid @ CHR ''.'' # ''\<newline>        '')"
    by (simp add: generate_response_def mid_def)
  have s: "strip (''\<newline>'' @ CHR ''R'' # mid @ CHR ''.'' # ''\<newline>        '')
             = CHR ''R'' # mid @ [CHR ''.'']"
    by (rule strip_core) (simp_all add: isspace_def)
  show ?thesis unfolding g s by (simp add: mid_def)
qed

text \<open>
  C2. The artifact section of the composed text is \<open>process_artifacts\<close> of the
  request's artifacts, placed under the heading "Contexto dos Artefatos:". For no
  artifact it is the sentence that none was supplied. Otherwise it is a header with the
  count, then one line for each of the first three artifacts at most (its number, its
  first 100 characters at most, then "..."), and, only when there are more than three,
  a last line that gives the count minus 3.
\<close>

theorem process_artifacts_section:
  "process_artifacts self [] = ''Nenhum artefato fornecido''
   \<and> (artifacts request \<noteq> [] \<longrightarrow>
        process_artifacts self (artifacts request) =
          ''Processando '' @ str_int (int (length (artifacts request))) @ '' artefato(s): ''
          @ concat (map (\<lambda>(i, a). ''\<newline>- Artefato '' @ str_int (int i + 1) @ '': ''
                                   @ take 100 a @ ''...'')
                     (enumerate 0 (take 3 (artifacts request))))
          @ (if 3 < length (artifacts request)
             then ''\<newline>- ... e mais '' @ str_int (int (length (artifacts request)) - 3)
                    @ '' artefato(s)''
             else []))
   \<and> (\<exists>rest. generate_response self request =
          ''Resposta gerada pela LLM '' @ model request @ '' na plataforma ''
          @ platform request @ '':\<newline>\<newline>Contexto dos Artefatos:\<newline>''
          @ process_artifacts self (artifacts request)
          @ ''\<newline>\<newline>Prompt Original: \"'' @ rest)"
proof (intro conjI impI)
  show "process_artifacts self [] = ''Nenhum artefato fornecido''"
    by (simp add: process_artifacts_def)
next
  assume "artifacts request \<noteq> []"
  then show "process_artifacts self (artifacts request) =
          ''Processando '' @ str_int (int (length (artifacts request))) @ '' artefato(s): ''
          @ concat (map (\<lambda>(i, a). ''\<newline>- Artefato '' @ str_int (int i + 1) @ '': ''
                                   @ take 100 a @ ''...'')
                     (enumerate 0 (take 3 (artifacts request))))
          @ (if 3 < length (artifacts request)
             then ''\<newline>- ... e mais '' @ str_int (int (length (artifacts request)) - 3)
                    @ '' artefato(s)''
             else [])"
    by (simp add: process_artifacts_def process_artifacts_loop_closed Let_def)
next
  show "\<exists>rest. generate_response self request =
          ''Resposta gerada pela LLM '' @ model request @ '' na plataforma ''
          @ platform request @ '':\<newline>\<newline>Contexto dos Artefatos:\<newline>''
          @ process_artifacts self (artifacts request)
          @ ''\<newline>\<newline>Prompt Original: \"'' @ rest"
    unfolding generate_response_closed by (intro exI) simp
qed

theorem process_artifacts_section_witness:
  "artifacts \<lparr>artifacts = [''req.md'', replicate 101 (CHR ''x''), ''c'', ''d'', ''e''],
              platform = ''openai'', model = ''gpt'', prompt = ''p''\<rparr> \<noteq> []
   \<and> process_artifacts llm_processor [''req.md'', replicate 101 (CHR ''x''), ''c'', ''d'', ''e'']
       = ''Processando 5 artefato(s): \<newline>- Artefato 1: req.md...\<newline>- Artefato 2: ''
         @ replicate 100 (CHR ''x'')
         @ ''...\<newline>- Artefato 3: c...\<newline>- ... e mais 2 artefato(s)''"
proof -
  let ?r = "\<lparr>artifacts = [''req.md'', replicate 101 (CHR ''x''), ''c'', ''d'', ''e''],
              platform = ''openai'', model = ''gpt'', prompt = ''p''\<rparr>"
  have h: "artifacts ?r \<noteq> []" by simp
  show ?thesis
    using h process_artifacts_section [of llm_processor ?r]
    by (simp add: enumerate_eq_zip str_int_small upt_rec)
qed


section \<open>The processing endpoint\<close>


lemma process_llm_request_valid:
  assumes "validate_request llm_processor request = Inr ok"
  shows "process_llm_request start_ms end_iso t request =
           Inr \<lparr>request_id = ''req_'' @ str_int start_ms,
                status = ''success'',
                response_text = generate_response llm_processor request,
                metadata =
                  [(''platform_used'', JStr (platform request)),
                   (''model_used'', JStr (model request)),
                   (''artifacts_count'', JInt (int (length (artifacts request)))),
                   (''prompt_length'', JInt (int (length (prompt request)))),
                   (''response_length'',
                      JInt (int (length (generate_response llm_processor request))))],
                timestamp = end_iso,
                processing_time_ms = t\<rparr>"
  using assms
  by (simp add: process_llm_request_def process_llm_request_with_def
        process_llm_request_try_def Let_def)

lemma validate_scenario_1:
  "validate_request llm_processor
     \<lparr>artifacts = [], platform = ''huggingface'', model = ''llama-7b'', prompt = ''Summarize''\<rparr>
   = Inr True"
  by (simp add: validate_request_def supported_platforms_llm supported_models_llm
        lower_hf lower_llama7b strip_def isspace_def)

lemma validate_mixed_case:
  "validate_request llm_processor
     \<lparr>artifacts = [], platform = ''OpenAI'', model = ''My-GPT-4'', prompt = ''hi''\<rparr>
   = Inr True"
  by (simp add: validate_request_def supported_platforms_llm supported_models_llm
        lower_openai lower_my_gpt strip_def isspace_def)




text \<open>
  C7. For a request that passes validation, \<open>process_llm_request\<close> returns a response
  with status "success", with request id "req\_" followed by the decimal form of the
  milliseconds read at the start of the call, and with metadata in which
  artifacts\_count is the number of artifacts, prompt\_length the length of the prompt
  and response\_length the length of the returned response text.
\<close>

theorem process_llm_request_success:
  assumes "validate_request llm_processor request = Inr ok"
  shows "\<exists>r. process_llm_request start_ms end_iso t request = Inr r
           \<and> LLMResponse.status r = ''success''
           \<and> request_id r = ''req_'' @ str_int start_ms
           \<and> map_of (metadata r) ''artifacts_count''
                = Some (JInt (int (length (artifacts request))))
           \<and> map_of (metadata r) ''prompt_length''
                = Some (JInt (int (length (prompt request))))
           \<and> map_of (metadata r) ''response_length''
                = Some (JInt (int (length (response_text r))))"
  unfolding process_llm_request_valid [OF assms] by simp

theorem process_llm_request_success_witness:
  "validate_request llm_processor
     \<lparr>artifacts = [], platform = ''huggingface'', model = ''llama-7b'', prompt = ''Summarize''\<rparr>
     = Inr True
   \<and> (\<exists>r. process_llm_request 1700000000123 ''2026-01-01T00:00:00.000002'' (2 :: int)
            \<lparr>artifacts = [], platform = ''huggingface'', model = ''llama-7b'',
             prompt = ''Summarize''\<rparr> = Inr r
          \<and> LLMResponse.status r = ''success''
          \<and> request_id r = ''req_1700000000123''
          \<and> map_of (metadata r) ''artifacts_count'' = Some (JInt 0)
          \<and> map_of (metadata r) ''prompt_length'' = Some (JInt 9)
          \<and> map_of (metadata r) ''response_length''
               = Some (JInt (int (length (response_text r)))))"
  using validate_scenario_1
    process_llm_request_success
      [OF validate_scenario_1, of 1700000000123 "''2026-01-01T00:00:00.000002''" "2 :: int"]
  by (simp add: str_int_millis)

text \<open>
  C9. For a request that passes validation, the metadata entries platform\_used and
  model\_used are the platform and model strings of the request, character for
  character: validation lower-cases copies only.
\<close>

theorem process_llm_request_metadata_verbatim:
  assumes "validate_request llm_processor request = Inr ok"
  shows "\<exists>r. process_llm_request start_ms end_iso t request = Inr r
           \<and> map_of (metadata r) ''platform_used'' = Some (JStr (platform request))
           \<and> map_of (metadata r) ''model_used'' = Some (JStr (model request))"
  unfolding process_llm_request_valid [OF assms] by simp

theorem process_llm_request_metadata_verbatim_witness:
  "validate_request llm_processor
     \<lparr>artifacts = [], platform = ''OpenAI'', model = ''My-GPT-4'', prompt = ''hi''\<rparr>
     = Inr True
   \<and> (\<exists>r. process_llm_request 1700000000123 ''2026-01-01T00:00:00.000002'' (2 :: int)
            \<lparr>artifacts = [], platform = ''OpenAI'', model = ''My-GPT-4'', prompt = ''hi''\<rparr>
            = Inr r
          \<and> map_of (metadata r) ''platform_used'' = Some (JStr ''OpenAI'')
          \<and> map_of (metadata r) ''model_used'' = Some (JStr ''My-GPT-4''))
   \<and> ''OpenAI'' \<noteq> lower ''OpenAI'' \<and> ''My-GPT-4'' \<noteq> lower ''My-GPT-4''"
  using validate_mixed_case
    process_llm_request_metadata_verbatim
      [OF validate_mixed_case, of 1700000000123 "''2026-01-01T00:00:00.000002''" "2 :: int"]
  by (simp add: lower_openai lower_my_gpt)


section \<open>The upstream client and the relay endpoints\<close>

lemma base_url_llm_client:
  "base_url (llm_client ''http://llm-service:8000/'') = ''http://llm-service:8000''"
  by (simp add: llm_client_def LLMClient_init_def)


lemma json_get_Inr:
  "json_get body key dflt = Inr v \<longleftrightarrow>
     (\<exists>kvs. body = JObj kvs \<and> v = (case map_of kvs key of Some w \<Rightarrow> w | None \<Rightarrow> dflt))"
  by (cases body) auto

text \<open>
  C8. \<open>check_health\<close> always returns a boolean and never raises. It returns True
  exactly when the GET of the upstream /health returns a response with status 200; an
  exception of the call, or any other status, gives False. The /health endpoint of the
  relay then answers healthy/healthy when the check gave True and degraded/unhealthy
  when it did not.
\<close>

theorem check_health_never_raises:
  "(\<exists>b. check_health self requests_get = Inr b)
   \<and> (check_health self requests_get = Inr True \<longleftrightarrow>
        (\<exists>response. requests_get (base_url self @ ''/health'') 5 = Inr response
                     \<and> status_code response = 200))
   \<and> (requests_get (base_url self @ ''/health'') 5 = Inl e \<longrightarrow>
        check_health self requests_get = Inr False)
   \<and> (requests_get (base_url self @ ''/health'') 5 = Inr response
        \<and> status_code response \<noteq> 200 \<longrightarrow>
        check_health self requests_get = Inr False)
   \<and> (check_health (llm_client url) requests_get = Inr True \<longrightarrow>
        health_check url requests_get now_iso =
          Inr \<lparr>status = ''healthy'', timestamp = now_iso, llm_service_status = ''healthy''\<rparr>)
   \<and> (check_health (llm_client url) requests_get \<noteq> Inr True \<longrightarrow>
        health_check url requests_get now_iso =
          Inr \<lparr>status = ''degraded'', timestamp = now_iso,
               llm_service_status = ''unhealthy''\<rparr>)"
  by (auto simp: check_health_def health_check_def split: sum.splits)

theorem check_health_never_raises_witness:
  "check_health (llm_client ''http://llm-service:8000/'')
     (get_answers ''http://llm-service:8000/health''
        (Inr \<lparr>status_code = 200, body_text = ''{}'', json = Inr (JObj [] :: int json)\<rparr>))
     = Inr True
   \<and> health_check ''http://llm-service:8000/''
        (get_answers ''http://llm-service:8000/health''
          (Inr \<lparr>status_code = 200, body_text = ''{}'', json = Inr (JObj [] :: int json)\<rparr>))
        ''2026-01-01T00:00:00''
       = Inr \<lparr>status = ''healthy'', timestamp = ''2026-01-01T00:00:00'',
              llm_service_status = ''healthy''\<rparr>
   \<and> check_health (llm_client ''http://llm-service:8000/'')
        (get_answers ''http://llm-service:8000/health''
          (Inr \<lparr>status_code = 503, body_text = ''busy'',
                json = Inl (RequestException ''Expecting value'') :: pyexn + int json\<rparr>))
       = Inr False
   \<and> check_health (llm_client ''http://llm-service:8000/'')
        (get_answers ''http://llm-service:8000/health''
          (Inl (RequestException ''Read timed out'') :: pyexn + int response))
       = Inr False
   \<and> health_check ''http://llm-service:8000/''
        (get_answers ''http://llm-service:8000/health''
          (Inl (RequestException ''Read timed out'') :: pyexn + int response))
        ''2026-01-01T00:00:00''
       = Inr \<lparr>status = ''degraded'', timestamp = ''2026-01-01T00:00:00'',
              llm_service_status = ''unhealthy''\<rparr>"
proof -
  let ?up = "get_answers ''http://llm-service:8000/health''
        (Inr \<lparr>status_code = 200, body_text = ''{}'', json = Inr (JObj [] :: int json)\<rparr>)"
  let ?busy = "get_answers ''http://llm-service:8000/health''
          (Inr \<lparr>status_code = 503, body_text = ''busy'',
                json = Inl (RequestException ''Expecting value'') :: pyexn + int json\<rparr>)"
  let ?down = "get_answers ''http://llm-service:8000/health''
          (Inl (RequestException ''Read timed out'') :: pyexn + int response)"
  let ?c = "llm_client ''http://llm-service:8000/''"
  have u: "?up (base_url ?c @ ''/health'') 5
             = Inr \<lparr>status_code = 200, body_text = ''{}'', json = Inr (JObj [] :: int json)\<rparr>"
    by (simp add: base_url_llm_client get_answers_def)
  have b: "?busy (base_url ?c @ ''/health'') 5
             = Inr \<lparr>status_code = 503, body_text = ''busy'',
                json = Inl (RequestException ''Expecting value'') :: pyexn + int json\<rparr>"
    by (simp add: base_url_llm_client get_answers_def)
  have d: "?down (base_url ?c @ ''/health'') 5 = Inl (RequestException ''Read timed out'')"
    by (simp add: base_url_llm_client get_answers_def)
  have 1: "check_health ?c ?up = Inr True"
    using check_health_never_raises [of ?c ?up] u by simp
  have 2: "check_health ?c ?busy = Inr False"
    using check_health_never_raises [of ?c ?busy] b by simp
  have 3: "check_health ?c ?down = Inr False"
    using check_health_never_raises [of ?c ?down] d by simp
  have 4: "health_check ''http://llm-service:8000/'' ?up ''2026-01-01T00:00:00''
       = Inr \<lparr>status = ''healthy'', timestamp = ''2026-01-01T00:00:00'',
              llm_service_status = ''healthy''\<rparr>"
    using 1 check_health_never_raises
      [of ?c ?up _ _ "''http://llm-service:8000/''" "''2026-01-01T00:00:00''"]
    by blast
  have 5: "health_check ''http://llm-service:8000/'' ?down ''2026-01-01T00:00:00''
       = Inr \<lparr>status = ''degraded'', timestamp = ''2026-01-01T00:00:00'',
              llm_service_status = ''unhealthy''\<rparr>"
    using 3 check_health_never_raises
      [of ?c ?down _ _ "''http://llm-service:8000/''" "''2026-01-01T00:00:00''"]
    by simp
  from 1 2 3 4 5 show ?thesis by blast
qed




text \<open>
  C10, as the code has it. \<open>get_supported_models\<close> and \<open>get_supported_platforms\<close>
  never raise. They return the empty list on an exception of the call, on a status
  other than 200, on a body that is not JSON or not a JSON object, and on a JSON object
  without the expected key. On a JSON object that has the key they return the value
  stored under it as it is, whatever its type: the result is a list when the upstream
  stored a list there.
\<close>

theorem get_supported_never_raise:
  "(\<exists>v. get_supported_models self requests_get = Inr v)
   \<and> (\<exists>v. get_supported_platforms self requests_get = Inr v)
   \<and> (get_supported_models self requests_get \<noteq> Inr (JArr []) \<longrightarrow>
        (\<exists>response kvs v.
            requests_get (base_url self @ ''/models'') 5 = Inr response
          \<and> status_code response = 200 \<and> json response = Inr (JObj kvs)
          \<and> map_of kvs ''supported_models'' = Some v
          \<and> get_supported_models self requests_get = Inr v))
   \<and> (get_supported_platforms self requests_get \<noteq> Inr (JArr []) \<longrightarrow>
        (\<exists>response kvs v.
            requests_get (base_url self @ ''/platforms'') 5 = Inr response
          \<and> status_code response = 200 \<and> json response = Inr (JObj kvs)
          \<and> map_of kvs ''supported_platforms'' = Some v
          \<and> get_supported_platforms self requests_get = Inr v))
   \<and> (requests_get (base_url self @ ''/models'') 5 = Inr response
        \<and> status_code response = 200 \<and> json response = Inr (JObj kvs) \<longrightarrow>
        get_supported_models self requests_get =
          Inr (case map_of kvs ''supported_models'' of Some v \<Rightarrow> v | None \<Rightarrow> JArr []))
   \<and> (requests_get (base_url self @ ''/platforms'') 5 = Inr response
        \<and> status_code response = 200 \<and> json response = Inr (JObj kvs) \<longrightarrow>
        get_supported_platforms self requests_get =
          Inr (case map_of kvs ''supported_platforms'' of Some v \<Rightarrow> v | None \<Rightarrow> JArr []))"
proof (intro conjI)
  show "\<exists>v. get_supported_models self requests_get = Inr v"
    by (simp add: get_supported_models_def split: sum.splits)
  show "\<exists>v. get_supported_platforms self requests_get = Inr v"
    by (simp add: get_supported_platforms_def split: sum.splits)
  show "get_supported_models self requests_get \<noteq> Inr (JArr []) \<longrightarrow>
        (\<exists>response kvs v.
            requests_get (base_url self @ ''/models'') 5 = Inr response
          \<and> status_code response = 200 \<and> json response = Inr (JObj kvs)
          \<and> map_of kvs ''supported_models'' = Some v
          \<and> get_supported_models self requests_get = Inr v)"
    by (auto simp: get_supported_models_def json_get_Inr
          split: sum.splits if_splits option.splits)
  show "get_supported_platforms self requests_get \<noteq> Inr (JArr []) \<longrightarrow>
        (\<exists>response kvs v.
            requests_get (base_url self @ ''/platforms'') 5 = Inr response
          \<and> status_code response = 200 \<and> json response = Inr (JObj kvs)
          \<and> map_of kvs ''supported_platforms'' = Some v
          \<and> get_supported_platforms self requests_get = Inr v)"
    by (auto simp: get_supported_platforms_def json_get_Inr
          split: sum.splits if_splits option.splits)
  show "requests_get (base_url self @ ''/models'') 5 = Inr response
        \<and> status_code response = 200 \<and> json response = Inr (JObj kvs) \<longrightarrow>
        get_supported_models self requests_get =
          Inr (case map_of kvs ''supported_models'' of Some v \<Rightarrow> v | None \<Rightarrow> JArr [])"
    by (simp add: get_supported_models_def)
  show "requests_get (base_url self @ ''/platforms'') 5 = Inr response
        \<and> status_code response = 200 \<and> json response = Inr (JObj kvs) \<longrightarrow>
        get_supported_platforms self requests_get =
          Inr (case map_of kvs ''supported_platforms'' of Some v \<Rightarrow> v | None \<Rightarrow> JArr [])"
    by (simp add: get_supported_platforms_def)
qed

theorem get_supported_never_raise_witness:
  "get_supported_models (llm_client ''http://llm-service:8000/'')
     (get_answers ''http://llm-service:8000/models''
        (Inr \<lparr>status_code = 200, body_text = ''{\"count\": 0}'',
              json = Inr (JObj [(''count'', JInt 0)] :: int json)\<rparr>))
     = Inr (JArr [])
   \<and> get_supported_models (llm_client ''http://llm-service:8000/'')
       (get_answers ''http://llm-service:8000/models''
          (Inr \<lparr>status_code = 200, body_text = ''{\"supported_models\": [\"llama\"]}'',
                json = Inr (JObj [(''supported_models'', JArr [JStr ''llama''])] :: int json)\<rparr>))
     = Inr (JArr [JStr ''llama''])
   \<and> get_supported_platforms (llm_client ''http://llm-service:8000/'')
       (get_answers ''http://llm-service:8000/platforms''
          (Inr \<lparr>status_code = 200, body_text = ''{\"count\": 0}'',
                json = Inr (JObj [(''count'', JInt 0)] :: int json)\<rparr>))
     = Inr (JArr [])
   \<and> get_supported_platforms (llm_client ''http://llm-service:8000/'')
       (get_answers ''http://llm-service:8000/platforms''
          (Inr \<lparr>status_code = 200, body_text = ''{\"supported_platforms\": [\"local\"]}'',
                json = Inr (JObj [(''supported_platforms'', JArr [JStr ''local''])]
                              :: int json)\<rparr>))
     = Inr (JArr [JStr ''local''])"
proof -
  let ?c = "llm_client ''http://llm-service:8000/''"
  let ?none = "\<lparr>status_code = 200, body_text = ''{\"count\": 0}'',
              json = Inr (JObj [(''count'', JInt 0)] :: int json)\<rparr>"
  let ?ms = "\<lparr>status_code = 200, body_text = ''{\"supported_models\": [\"llama\"]}'',
                json = Inr (JObj [(''supported_models'', JArr [JStr ''llama''])] :: int json)\<rparr>"
  let ?ps = "\<lparr>status_code = 200, body_text = ''{\"supported_platforms\": [\"local\"]}'',
                json = Inr (JObj [(''supported_platforms'', JArr [JStr ''local''])]
                              :: int json)\<rparr>"
  let ?gm0 = "get_answers ''http://llm-service:8000/models'' (Inr ?none)"
  let ?gm1 = "get_answers ''http://llm-service:8000/models'' (Inr ?ms)"
  let ?gp0 = "get_answers ''http://llm-service:8000/platforms'' (Inr ?none)"
  let ?gp1 = "get_answers ''http://llm-service:8000/platforms'' (Inr ?ps)"
  have a: "?gm0 (base_url ?c @ ''/models'') 5 = Inr ?none"
    by (simp add: base_url_llm_client get_answers_def)
  have b: "?gm1 (base_url ?c @ ''/models'') 5 = Inr ?ms"
    by (simp add: base_url_llm_client get_answers_def)
  have c: "?gp0 (base_url ?c @ ''/platforms'') 5 = Inr ?none"
    by (simp add: base_url_llm_client get_answers_def)
  have d: "?gp1 (base_url ?c @ ''/platforms'') 5 = Inr ?ps"
    by (simp add: base_url_llm_client get_answers_def)
  note models = get_supported_never_raise
    [THEN conjunct2, THEN conjunct2, THEN conjunct2, THEN conjunct2, THEN conjunct1, rule_format]
  note platforms = get_supported_never_raise
    [THEN conjunct2, THEN conjunct2, THEN conjunct2, THEN conjunct2, THEN conjunct2, rule_format]
  have 1: "get_supported_models ?c ?gm0 = Inr (JArr [])"
    using models [of ?gm0 ?c ?none "[(''count'', JInt 0)]"] a by simp
  have 2: "get_supported_models ?c ?gm1 = Inr (JArr [JStr ''llama''])"
    using models [of ?gm1 ?c ?ms "[(''supported_models'', JArr [JStr ''llama''])]"] b by simp
  have 3: "get_supported_platforms ?c ?gp0 = Inr (JArr [])"
    using platforms [of ?gp0 ?c ?none "[(''count'', JInt 0)]"] c by simp
  have 4: "get_supported_platforms ?c ?gp1 = Inr (JArr [JStr ''local''])"
    using platforms [of ?gp1 ?c ?ps "[(''supported_platforms'', JArr [JStr ''local''])]"] d
    by simp
  from 1 2 3 4 show ?thesis by blast
qed

theorem get_supported_models_non_list_counterexample:
  "get_supported_models (llm_client ''http://llm-service:8000/'')
     (get_answers ''http://llm-service:8000/models''
        (Inr \<lparr>status_code = 200, body_text = ''{\"supported_models\": 5}'',
              json = Inr (JObj [(''supported_models'', JInt 5)])\<rparr>))
     = Inr (JInt 5 :: int json)"
  by (simp add: get_supported_models_def llm_client_def LLMClient_init_def get_answers_def)

end
